theory Spec2Isabelle
  imports Complex_Main "HOL-Library.Word" "HOL-Library.Log_Nat"
begin

unbundle bit_operations_syntax

section \<open>JavaScript values used by the feature-flag module\<close>

subsection \<open>Strings\<close>

text \<open>
  A JavaScript string is a sequence of UTF-16 code units; \<open>charCodeAt\<close> reads one of them
  (a number from 0 to 65535). String literals of the source are written \<open>js ''...''\<close>.
\<close>

type_synonym jsstring = "16 word list"

definition js :: "string \<Rightarrow> jsstring" where
  "js s = map (\<lambda>c. of_nat (of_char c)) s"

text \<open>
  The code units that \<open>String.prototype.trim\<close> and \<open>parseInt\<close> skip: ECMAScript's
  WhiteSpace and LineTerminator (TAB, LF, VT, FF, CR, SP, NBSP, U+1680, U+2000 to U+200A,
  U+2028, U+2029, U+202F, U+205F, U+3000, U+FEFF).
\<close>

definition isWhiteSpace :: "16 word \<Rightarrow> bool" where
  "isWhiteSpace c \<longleftrightarrow>
     unat c \<in> {9, 10, 11, 12, 13, 32, 160, 5760, 8232, 8233, 8239, 8287, 12288, 65279}
     \<or> (8192 \<le> unat c \<and> unat c \<le> 8202)"

definition trim :: "jsstring \<Rightarrow> jsstring" where
  "trim s = rev (dropWhile isWhiteSpace (rev (dropWhile isWhiteSpace s)))"

text \<open>\<open>s.split(',')\<close>: the pieces between the separators; the empty string gives \<open>['']\<close>.\<close>

fun splitString :: "16 word \<Rightarrow> jsstring \<Rightarrow> jsstring list" where
  "splitString sep [] = [[]]"
| "splitString sep (c # cs) =
     (if c = sep then [] # splitString sep cs
      else (case splitString sep cs of
              [] \<Rightarrow> [[c]]
            | p # ps \<Rightarrow> (c # p) # ps))"

definition comma :: "16 word" where
  "comma = 44"

text \<open>
  Truthiness of an optional string (\<open>undefined\<close> is \<open>None\<close>): \<open>undefined\<close> and the
  empty string are falsy, every other string is truthy.
\<close>

definition truthy :: "jsstring option \<Rightarrow> bool" where
  "truthy v \<longleftrightarrow> (case v of None \<Rightarrow> False | Some s \<Rightarrow> s \<noteq> [])"

subsection \<open>Numbers\<close>

text \<open>
  A JavaScript number is an IEEE-754 binary64 value. The finite ones are rationals; the two
  zeros are not told apart (no comparison of the module does). \<open>toDouble\<close> rounds a
  rational to the nearest binary64 value, ties to even, with gradual underflow and overflow
  to infinity, as every arithmetic operation of the language does with its exact result.
\<close>

datatype jsnumber = NaN | NegInfinity | Finite rat | PosInfinity

definition roundTiesToEven :: "rat \<Rightarrow> int" where
  "roundTiesToEven x =
     (let f = \<lfloor>x\<rfloor>; d = x - of_int f
      in if d < 1 / 2 then f else if 1 / 2 < d then f + 1 else if even f then f else f + 1)"

text \<open>The binary exponent of a positive rational: the \<open>e\<close> with \<open>2^e \<le> x < 2^(e+1)\<close>.\<close>

definition floorLog2 :: "rat \<Rightarrow> int" where
  "floorLog2 x =
     (if 1 \<le> x then int (floorlog 2 (nat \<lfloor>x\<rfloor>)) - 1
      else - int (floorlog 2 (nat (\<lceil>1 / x\<rceil> - 1))))"

definition toDouble :: "rat \<Rightarrow> jsnumber" where
  "toDouble x =
     (if x = 0 then Finite 0
      else let e = max (floorLog2 \<bar>x\<bar>) (- 1022);
               ulp = 2 powi (e - 52);
               r = of_int (roundTiesToEven (x / ulp)) * ulp
           in if 2 ^ 1024 \<le> \<bar>r\<bar> then (if x < 0 then NegInfinity else PosInfinity)
              else Finite r)"

text \<open>\<open>a / c\<close> and \<open>a * c\<close> for a finite positive constant \<open>c\<close> (the module only uses 100).\<close>

fun numDivide :: "jsnumber \<Rightarrow> rat \<Rightarrow> jsnumber" where
  "numDivide (Finite x) c = toDouble (x / c)"
| "numDivide n c = n"

fun numTimes :: "jsnumber \<Rightarrow> rat \<Rightarrow> jsnumber" where
  "numTimes (Finite x) c = toDouble (x * c)"
| "numTimes n c = n"

text \<open>\<open>a < b\<close> and \<open>a >= b\<close>: both are false as soon as one side is \<open>NaN\<close>.\<close>

fun numLess :: "jsnumber \<Rightarrow> jsnumber \<Rightarrow> bool" where
  "numLess NaN b = False"
| "numLess a NaN = False"
| "numLess a NegInfinity = False"
| "numLess NegInfinity b = True"
| "numLess PosInfinity b = False"
| "numLess (Finite x) PosInfinity = True"
| "numLess (Finite x) (Finite y) = (x < y)"

fun numGreaterEq :: "jsnumber \<Rightarrow> jsnumber \<Rightarrow> bool" where
  "numGreaterEq NaN b = False"
| "numGreaterEq a NaN = False"
| "numGreaterEq a b = (\<not> numLess a b)"

text \<open>
  \<open>parseInt(s, 10)\<close>: leading white space is skipped, one sign is read, then the longest
  run of decimal digits; no digit gives \<open>NaN\<close>, whatever follows the digits is ignored.
\<close>

definition isDigit :: "16 word \<Rightarrow> bool" where
  "isDigit c \<longleftrightarrow> 48 \<le> unat c \<and> unat c \<le> 57"

definition digitsValue :: "jsstring \<Rightarrow> int" where
  "digitsValue ds = foldl (\<lambda>acc d. 10 * acc + (uint d - 48)) 0 ds"

definition parseInt :: "jsstring \<Rightarrow> jsnumber" where
  "parseInt s =
     (let S = dropWhile isWhiteSpace s;
          sign = (case S of [] \<Rightarrow> 1 | c # _ \<Rightarrow> if c = 45 then - 1 else 1);
          S' = (case S of [] \<Rightarrow> [] | c # cs \<Rightarrow> if c = 43 \<or> c = 45 then cs else S);
          Z = takeWhile isDigit S'
      in if Z = [] then NaN else toDouble (of_int (sign * digitsValue Z)))"

subsection \<open>32-bit integer operators\<close>

text \<open>
  \<open>ToInt32\<close> wraps an integer into the signed 32-bit range; \<open><<\<close> and \<open>&\<close> apply it to
  their operands and to their result. \<open>%\<close> takes the sign of the dividend.
\<close>

definition toInt32 :: "int \<Rightarrow> int" where
  "toInt32 x = sint (word_of_int x :: 32 word)"

definition shiftLeft :: "int \<Rightarrow> nat \<Rightarrow> int" where
  "shiftLeft x n = toInt32 (toInt32 x * 2 ^ (n mod 32))"

definition bitAnd :: "int \<Rightarrow> int \<Rightarrow> int" where
  "bitAnd a b = toInt32 (toInt32 a AND toInt32 b)"

definition jsrem :: "int \<Rightarrow> int \<Rightarrow> int" where
  "jsrem a b = sgn a * (\<bar>a\<bar> mod \<bar>b\<bar>)"

section \<open>The runtime environment\<close>

text \<open>
  The module reads \<open>process.env\<close> (absent in a browser: \<open>typeof process === 'undefined'\<close>)
  and \<open>window.__ENV__\<close> (absent on a server, or never injected). Both are dictionaries
  from names to strings. \<open>toUpperCase\<close> is the host's \<open>String.prototype.toUpperCase\<close>,
  whose Unicode case tables are not part of the repository: it is a component of the
  runtime, and every theorem holds for each choice of it.
\<close>

record process =
  env :: "(jsstring \<rightharpoonup> jsstring) option"

record window =
  ENV :: "(jsstring \<rightharpoonup> jsstring) option"

record runtime =
  process :: "process option"
  window :: "window option"
  toUpperCase :: "jsstring \<Rightarrow> jsstring"

text \<open>\<open>typeof process !== 'undefined' && process.env?.[key]\<close>, as an optional string.\<close>

definition processEnv :: "runtime \<Rightarrow> jsstring \<Rightarrow> jsstring option" where
  "processEnv rt key =
     (case process rt of
        None \<Rightarrow> None
      | Some p \<Rightarrow> (case env p of None \<Rightarrow> None | Some e \<Rightarrow> e key))"

text \<open>\<open>(window as any).__ENV__?.[key]\<close> for a defined \<open>window\<close>.\<close>

definition windowEnv :: "window \<Rightarrow> jsstring \<Rightarrow> jsstring option" where
  "windowEnv w key = (case ENV w of None \<Rightarrow> None | Some e \<Rightarrow> e key)"

definition ADMIN_WORKBENCH_ENABLED :: jsstring where
  "ADMIN_WORKBENCH_ENABLED = js ''NEXT_PUBLIC_ADMIN_WORKBENCH_ENABLED''"

definition ADMIN_WORKBENCH_ROLLOUT_PERCENTAGE :: jsstring where
  "ADMIN_WORKBENCH_ROLLOUT_PERCENTAGE = js ''NEXT_PUBLIC_ADMIN_WORKBENCH_ROLLOUT_PERCENTAGE''"

definition ADMIN_WORKBENCH_TARGET_USERS :: jsstring where
  "ADMIN_WORKBENCH_TARGET_USERS = js ''NEXT_PUBLIC_ADMIN_WORKBENCH_TARGET_USERS''"

definition ADMIN_WORKBENCH_BETA_TESTERS :: jsstring where
  "ADMIN_WORKBENCH_BETA_TESTERS = js ''NEXT_PUBLIC_ADMIN_WORKBENCH_BETA_TESTERS''"

section \<open>src/lib/admin/featureFlags.ts\<close>

definition isAdminWorkBenchEnabled :: "runtime \<Rightarrow> bool" where
  "isAdminWorkBenchEnabled rt =
     (case processEnv rt ADMIN_WORKBENCH_ENABLED of
        Some v \<Rightarrow>
          if v \<noteq> [] then v = js ''true''
          else (case window rt of
                  None \<Rightarrow> False
                | Some w \<Rightarrow> (case windowEnv w ADMIN_WORKBENCH_ENABLED of
                              None \<Rightarrow> False
                            | Some envEnabled \<Rightarrow> envEnabled = js ''true''))
      | None \<Rightarrow>
          (case window rt of
             None \<Rightarrow> False
           | Some w \<Rightarrow> (case windowEnv w ADMIN_WORKBENCH_ENABLED of
                         None \<Rightarrow> False
                       | Some envEnabled \<Rightarrow> envEnabled = js ''true'')))"

definition getEnvironmentVariable :: "runtime \<Rightarrow> jsstring \<Rightarrow> jsstring \<Rightarrow> jsstring" where
  "getEnvironmentVariable rt key defaultValue =
     (if truthy (processEnv rt key)
        then (case processEnv rt key of Some v \<Rightarrow> v | None \<Rightarrow> defaultValue)
      else (case window rt of
              None \<Rightarrow> defaultValue
            | Some w \<Rightarrow> (case windowEnv w key of
                          None \<Rightarrow> defaultValue
                        | Some envValue \<Rightarrow> envValue)))"

text \<open>\<open>string | string[]\<close>, the type of \<open>targetUsers\<close>.\<close>

datatype targetUsers = Str jsstring | Arr "jsstring list"

definition parseTargetUsers :: "runtime \<Rightarrow> jsstring \<Rightarrow> targetUsers" where
  "parseTargetUsers rt targetUsersStr =
     (if targetUsersStr = js ''all'' \<or> targetUsersStr = js ''beta'' then Str targetUsersStr
      else if targetUsersStr = js ''admins'' then Arr [js ''ADMIN'']
      else if comma \<in> set targetUsersStr
        then Arr (map (\<lambda>role. toUpperCase rt (trim role)) (splitString comma targetUsersStr))
      else if targetUsersStr \<noteq> [] \<and> targetUsersStr \<noteq> js ''all''
        then Arr [toUpperCase rt targetUsersStr]
      else Str (js ''all''))"

definition getBetaTesterList :: "runtime \<Rightarrow> jsstring list" where
  "getBetaTesterList rt =
     (let betaListEnv = getEnvironmentVariable rt ADMIN_WORKBENCH_BETA_TESTERS []
      in if betaListEnv = [] then []
         else filter (\<lambda>s. s \<noteq> []) (map trim (splitString comma betaListEnv)))"

record featureFlagConfig =
  enabled_config :: bool
  rolloutPercentage :: jsnumber
  targetUsers :: targetUsers
  betaTesters :: "jsstring list"
  description :: jsstring

definition getAdminWorkBenchFeatureFlagConfig :: "runtime \<Rightarrow> featureFlagConfig" where
  "getAdminWorkBenchFeatureFlagConfig rt =
     (let rolloutPercentage = getEnvironmentVariable rt ADMIN_WORKBENCH_ROLLOUT_PERCENTAGE (js ''100'');
          targetUsersEnv = getEnvironmentVariable rt ADMIN_WORKBENCH_TARGET_USERS (js ''all'');
          betaTesters = getBetaTesterList rt
      in \<lparr> enabled_config = isAdminWorkBenchEnabled rt,
           rolloutPercentage = parseInt rolloutPercentage,
           targetUsers = parseTargetUsers rt targetUsersEnv,
           betaTesters = betaTesters,
           description = js ''New AdminWorkBench UI for user management dashboard'' \<rparr>)"

text \<open>
  The loop of \<open>hashUserId\<close>, one code unit per round:
  \<open>hash = ((hash << 5) - hash) + char; hash = hash & hash\<close>. The subtraction and the
  addition are exact (their operands are 32-bit integers and a code unit).
\<close>

fun hashLoop :: "int \<Rightarrow> jsstring \<Rightarrow> int" where
  "hashLoop hash [] = hash"
| "hashLoop hash (c # cs) =
     (let char = uint c;
          hash1 = (shiftLeft hash 5 - hash) + char;
          hash2 = bitAnd hash1 hash1
      in hashLoop hash2 cs)"

definition hashUserId :: "jsstring \<Rightarrow> int" where
  "hashUserId userId = jsrem \<bar>hashLoop 0 userId\<bar> 100"

text \<open>
  Lines 54 to 77 of \<open>isAdminWorkBenchEnabledForUser\<close>: what the function does with
  \<open>config\<close> once the global check has passed. \<open>userRole\<close> is optional.
\<close>

definition enabledForUserByConfig :: "featureFlagConfig \<Rightarrow> jsstring \<Rightarrow> jsstring option \<Rightarrow> bool" where
  "enabledForUserByConfig config userId userRole =
     (if targetUsers config \<noteq> Str (js ''all'') \<and> truthy userRole
         \<and> (let targetRoles = (case targetUsers config of Arr roles \<Rightarrow> roles | Str s \<Rightarrow> [s])
             in case userRole of None \<Rightarrow> False | Some r \<Rightarrow> r \<notin> set targetRoles)
      then False
      else if numLess (rolloutPercentage config) (Finite 100)
         \<and> (let hash = hashUserId userId;
                 percentageThreshold = numTimes (numDivide (rolloutPercentage config) 100) 100
             in numGreaterEq (Finite (of_int (jsrem hash 100))) percentageThreshold)
      then False
      else if betaTesters config \<noteq> [] then userId \<in> set (betaTesters config)
      else True)"

definition isAdminWorkBenchEnabledForUser :: "runtime \<Rightarrow> jsstring \<Rightarrow> jsstring option \<Rightarrow> bool" where
  "isAdminWorkBenchEnabledForUser rt userId userRole =
     (if \<not> isAdminWorkBenchEnabled rt then False
      else let config = getAdminWorkBenchFeatureFlagConfig rt
           in enabledForUserByConfig config userId userRole)"

section \<open>hooks/useAdminWorkBenchFeature\<close>

text \<open>
  The session of \<open>useSession()\<close>: \<open>data\<close> may be absent, and so may \<open>user\<close>, \<open>id\<close> and
  \<open>role\<close>. \<open>sessionUserId\<close> is \<open>session?.user?.id\<close>, \<open>sessionUserRole\<close> is
  \<open>session?.user?.role\<close>.
\<close>

record sessionUser =
  user_id :: "jsstring option"
  user_role :: "jsstring option"

record session =
  user :: "sessionUser option"

definition sessionUserId :: "session option \<Rightarrow> jsstring option" where
  "sessionUserId data =
     (case data of
        None \<Rightarrow> None
      | Some s \<Rightarrow> (case user s of None \<Rightarrow> None | Some u \<Rightarrow> user_id u))"

definition sessionUserRole :: "session option \<Rightarrow> jsstring option" where
  "sessionUserRole data =
     (case data of
        None \<Rightarrow> None
      | Some s \<Rightarrow> (case user s of None \<Rightarrow> None | Some u \<Rightarrow> user_role u))"

record adminWorkBenchFeature =
  globalEnabled :: bool
  userEnabled :: bool
  enabled :: bool
  config :: featureFlagConfig

text \<open>The callback that the hook hands to \<open>useMemo\<close>.\<close>

definition computeFeature :: "runtime \<Rightarrow> session option \<Rightarrow> adminWorkBenchFeature" where
  "computeFeature rt data =
     (let globalEnabled = isAdminWorkBenchEnabled rt;
          userEnabled =
            (case sessionUserId data of
               None \<Rightarrow> False
             | Some i \<Rightarrow>
                 if i \<noteq> [] then isAdminWorkBenchEnabledForUser rt i (sessionUserRole data)
                 else False);
          config = getAdminWorkBenchFeatureFlagConfig rt
      in \<lparr> globalEnabled = globalEnabled,
           userEnabled = userEnabled,
           enabled = (globalEnabled \<and> userEnabled),
           config = config \<rparr>)"

text \<open>
  \<open>useMemo(factory, deps)\<close>: the hook keeps the last dependencies and value between renders;
  the factory runs on the first render and whenever a dependency has changed. The memo cell
  is passed in and returned.
\<close>

type_synonym deps = "jsstring option \<times> jsstring option"

type_synonym 'a memo = "(deps \<times> 'a) option"

definition useMemo :: "(unit \<Rightarrow> 'a) \<Rightarrow> deps \<Rightarrow> 'a memo \<Rightarrow> 'a \<times> 'a memo" where
  "useMemo factory ds memo =
     (case memo of
        None \<Rightarrow> (let v = factory () in (v, Some (ds, v)))
      | Some (ds0, v0) \<Rightarrow>
          if ds0 = ds then (v0, memo)
          else (let v = factory () in (v, Some (ds, v))))"

definition useAdminWorkBenchFeature ::
  "runtime \<Rightarrow> session option \<Rightarrow> adminWorkBenchFeature memo
     \<Rightarrow> adminWorkBenchFeature \<times> adminWorkBenchFeature memo" where
  "useAdminWorkBenchFeature rt data memo =
     useMemo (\<lambda>_. computeFeature rt data) (sessionUserId data, sessionUserRole data) memo"

text \<open>
  The memo cells a component can hold: empty before the first render, then whatever a
  render leaves behind, under any runtime and session.
\<close>

inductive rendered :: "adminWorkBenchFeature memo \<Rightarrow> bool" where
  mount: "rendered None"
| rerender: "rendered memo \<Longrightarrow> rendered (snd (useAdminWorkBenchFeature rt data memo))"

section \<open>app/api/admin/entities/clients: the deprecated client endpoints\<close>

text \<open>
  A handler is a function of what its collaborators do during the request: the tenant
  context, the permission check and each database call either return or throw. The
  handlers are the functions wrapped by \<open>withTenantContext\<close>; the wrapper, the permission
  table and the database client are not part of the modelled sources, so the record
  \<open>backend\<close> holds their answers. Header names and message texts are the literals of the
  source.
\<close>

datatype 'a outcome = Throws | Returns 'a

datatype permission = USERS_VIEW | USERS_MANAGE

record tenantContext =
  ctx_role :: "jsstring option"
  ctx_tenantId :: "jsstring option"

record client =
  client_id :: jsstring
  client_name :: jsstring
  client_email :: jsstring

record backend =
  requireTenantContext :: "tenantContext outcome"
  hasPermission :: "jsstring option \<Rightarrow> permission \<Rightarrow> bool"
  findMany :: "jsstring \<Rightarrow> client list outcome"
  findFirst :: "jsstring \<Rightarrow> jsstring \<Rightarrow> client option outcome"
  findUnique :: "jsstring \<Rightarrow> jsstring \<Rightarrow> client option outcome"
  create :: "jsstring \<Rightarrow> jsstring \<Rightarrow> jsstring \<Rightarrow> client outcome"
  update :: "jsstring \<Rightarrow> jsstring option \<Rightarrow> jsstring option \<Rightarrow> client outcome"
  delete :: "jsstring \<Rightarrow> unit outcome"
  now :: int

text \<open>
  The request: the route parameter \<open>params.id\<close> and the fields \<open>name\<close> and \<open>email\<close> of the
  JSON body (absent when the body has none, or when it cannot be parsed).
\<close>

record request =
  params_id :: jsstring
  body_name :: "jsstring option"
  body_email :: "jsstring option"

datatype headerValue = Text string | UTCString int

datatype responseBody =
    ErrorBody string
  | ClientsBody "client list"
  | ClientBody client
  | SuccessBody

record response =
  status :: nat
  body :: responseBody
  headers :: "string \<rightharpoonup> headerValue"

text \<open>\<open>NextResponse.json(body, { status })\<close>; the status is 200 when none is given.\<close>

definition json :: "responseBody \<Rightarrow> nat \<Rightarrow> response" where
  "json b st = \<lparr> status = st, body = b,
                 headers = [''content-type'' \<mapsto> Text ''application/json''] \<rparr>"

definition quoted :: "string \<Rightarrow> string" where
  "quoted s = [CHR 0x22] @ s @ [CHR 0x22]"

definition setHeader :: "string \<Rightarrow> headerValue \<Rightarrow> response \<Rightarrow> response" where
  "setHeader name v r = r\<lparr> headers := (headers r)(name \<mapsto> v) \<rparr>"

text \<open>\<open>addDeprecationHeaders\<close> of \<open>clients/route.ts\<close>; the first argument is \<open>Date.now()\<close>.\<close>

definition addDeprecationHeaders :: "int \<Rightarrow> response \<Rightarrow> response" where
  "addDeprecationHeaders t r =
     setHeader ''X-API-Warn''
       (Text ''This endpoint is deprecated. Please use /api/admin/users with role=CLIENT filter instead.'')
       (setHeader ''Link'' (Text (''</api/admin/users?role=CLIENT>; rel='' @ quoted ''successor''))
         (setHeader ''Sunset'' (UTCString (t + 90 * 24 * 60 * 60 * 1000))
           (setHeader ''Deprecation'' (Text ''true'') r)))"

text \<open>\<open>addDeprecationHeaders\<close> of \<open>clients/[id]/route.ts\<close>.\<close>

definition addDeprecationHeaders_id :: "int \<Rightarrow> response \<Rightarrow> response" where
  "addDeprecationHeaders_id t r =
     setHeader ''X-API-Warn''
       (Text ''This endpoint is deprecated. Please use /api/admin/users instead.'')
       (setHeader ''Link'' (Text (''</api/admin/users>; rel='' @ quoted ''successor''))
         (setHeader ''Sunset'' (UTCString (t + 90 * 24 * 60 * 60 * 1000))
           (setHeader ''Deprecation'' (Text ''true'') r)))"

text \<open>\<open>GET\<close> of \<open>clients/route.ts\<close>: the \<open>try\<close> block, then the handler with its \<open>catch\<close>.\<close>

definition clients_GET_try :: "backend \<Rightarrow> response outcome" where
  "clients_GET_try b =
     (case requireTenantContext b of
        Throws \<Rightarrow> Throws
      | Returns ctx \<Rightarrow>
          if \<not> hasPermission b (ctx_role ctx) USERS_VIEW
            then Returns (addDeprecationHeaders (now b) (json (ErrorBody ''Unauthorized'') 401))
          else (case ctx_tenantId ctx of
                  None \<Rightarrow>
                    Returns (addDeprecationHeaders (now b)
                      (json (ErrorBody ''Tenant context missing'') 400))
                | Some tenantId \<Rightarrow>
                    if tenantId = []
                      then Returns (addDeprecationHeaders (now b)
                             (json (ErrorBody ''Tenant context missing'') 400))
                    else (case findMany b tenantId of
                            Throws \<Rightarrow> Throws
                          | Returns clients \<Rightarrow>
                              Returns (addDeprecationHeaders (now b)
                                (json (ClientsBody clients) 200)))))"

definition clients_GET :: "backend \<Rightarrow> response" where
  "clients_GET b =
     (case clients_GET_try b of
        Returns r \<Rightarrow> r
      | Throws \<Rightarrow> json (ErrorBody ''Failed to list clients'') 500)"

text \<open>\<open>POST\<close> of \<open>clients/route.ts\<close>.\<close>

definition clients_POST_try :: "backend \<Rightarrow> request \<Rightarrow> response outcome" where
  "clients_POST_try b req =
     (case requireTenantContext b of
        Throws \<Rightarrow> Throws
      | Returns ctx \<Rightarrow>
          if \<not> hasPermission b (ctx_role ctx) USERS_MANAGE
            then Returns (addDeprecationHeaders (now b) (json (ErrorBody ''Unauthorized'') 401))
          else (case ctx_tenantId ctx of
                  None \<Rightarrow>
                    Returns (addDeprecationHeaders (now b)
                      (json (ErrorBody ''Tenant context missing'') 400))
                | Some tenantId \<Rightarrow>
                    if tenantId = []
                      then Returns (addDeprecationHeaders (now b)
                             (json (ErrorBody ''Tenant context missing'') 400))
                    else (case (body_name req, body_email req) of
                            (Some name, Some email) \<Rightarrow>
                              if name = [] \<or> email = []
                                then Returns (addDeprecationHeaders (now b)
                                       (json (ErrorBody ''Name and email are required'') 400))
                              else (case findUnique b tenantId email of
                                      Throws \<Rightarrow> Throws
                                    | Returns (Some existing) \<Rightarrow>
                                        Returns (addDeprecationHeaders (now b)
                                          (json (ErrorBody ''Email already exists'') 409))
                                    | Returns None \<Rightarrow>
                                        (case create b name email tenantId of
                                           Throws \<Rightarrow> Throws
                                         | Returns c \<Rightarrow>
                                             Returns (addDeprecationHeaders (now b)
                                               (json (ClientBody c) 201))))
                          | _ \<Rightarrow>
                              Returns (addDeprecationHeaders (now b)
                                (json (ErrorBody ''Name and email are required'') 400)))))"

definition clients_POST :: "backend \<Rightarrow> request \<Rightarrow> response" where
  "clients_POST b req =
     (case clients_POST_try b req of
        Returns r \<Rightarrow> r
      | Throws \<Rightarrow>
          addDeprecationHeaders (now b) (json (ErrorBody ''Failed to create client'') 500))"

text \<open>\<open>GET\<close> of \<open>clients/[id]/route.ts\<close>.\<close>

definition client_GET_try :: "backend \<Rightarrow> request \<Rightarrow> response outcome" where
  "client_GET_try b req =
     (case requireTenantContext b of
        Throws \<Rightarrow> Throws
      | Returns ctx \<Rightarrow>
          if \<not> hasPermission b (ctx_role ctx) USERS_VIEW
            then Returns (addDeprecationHeaders_id (now b) (json (ErrorBody ''Unauthorized'') 401))
          else (case ctx_tenantId ctx of
                  None \<Rightarrow>
                    Returns (addDeprecationHeaders_id (now b)
                      (json (ErrorBody ''Tenant context missing'') 400))
                | Some tenantId \<Rightarrow>
                    if tenantId = []
                      then Returns (addDeprecationHeaders_id (now b)
                             (json (ErrorBody ''Tenant context missing'') 400))
                    else (case findFirst b (params_id req) tenantId of
                            Throws \<Rightarrow> Throws
                          | Returns None \<Rightarrow>
                              Returns (addDeprecationHeaders_id (now b)
                                (json (ErrorBody ''Client not found'') 404))
                          | Returns (Some c) \<Rightarrow>
                              Returns (addDeprecationHeaders_id (now b)
                                (json (ClientBody c) 200)))))"

definition client_GET :: "backend \<Rightarrow> request \<Rightarrow> response" where
  "client_GET b req =
     (case client_GET_try b req of
        Returns r \<Rightarrow> r
      | Throws \<Rightarrow> json (ErrorBody ''Failed to fetch client'') 500)"

text \<open>\<open>PATCH\<close> of \<open>clients/[id]/route.ts\<close>.\<close>

definition client_PATCH_try :: "backend \<Rightarrow> request \<Rightarrow> response outcome" where
  "client_PATCH_try b req =
     (case requireTenantContext b of
        Throws \<Rightarrow> Throws
      | Returns ctx \<Rightarrow>
          if \<not> hasPermission b (ctx_role ctx) USERS_MANAGE
            then Returns (addDeprecationHeaders_id (now b) (json (ErrorBody ''Unauthorized'') 401))
          else (case ctx_tenantId ctx of
                  None \<Rightarrow>
                    Returns (addDeprecationHeaders_id (now b)
                      (json (ErrorBody ''Tenant context missing'') 400))
                | Some tenantId \<Rightarrow>
                    if tenantId = []
                      then Returns (addDeprecationHeaders_id (now b)
                             (json (ErrorBody ''Tenant context missing'') 400))
                    else (case findFirst b (params_id req) tenantId of
                            Throws \<Rightarrow> Throws
                          | Returns None \<Rightarrow>
                              Returns (addDeprecationHeaders_id (now b)
                                (json (ErrorBody ''Client not found'') 404))
                          | Returns (Some c) \<Rightarrow>
                              (case (if truthy (body_email req)
                                        \<and> body_email req \<noteq> Some (client_email c)
                                     then (case body_email req of
                                             None \<Rightarrow> Returns None
                                           | Some email \<Rightarrow> findUnique b tenantId email)
                                     else Returns None) of
                                 Throws \<Rightarrow> Throws
                               | Returns (Some existing) \<Rightarrow>
                                   Returns (addDeprecationHeaders_id (now b)
                                     (json (ErrorBody ''Email already in use'') 409))
                               | Returns None \<Rightarrow>
                                   (case update b (params_id req) (body_name req) (body_email req) of
                                      Throws \<Rightarrow> Throws
                                    | Returns updated \<Rightarrow>
                                        Returns (addDeprecationHeaders_id (now b)
                                          (json (ClientBody updated) 200)))))))"

definition client_PATCH :: "backend \<Rightarrow> request \<Rightarrow> response" where
  "client_PATCH b req =
     (case client_PATCH_try b req of
        Returns r \<Rightarrow> r
      | Throws \<Rightarrow>
          addDeprecationHeaders_id (now b) (json (ErrorBody ''Failed to update client'') 500))"

text \<open>\<open>DELETE\<close> of \<open>clients/[id]/route.ts\<close>.\<close>

definition client_DELETE_try :: "backend \<Rightarrow> request \<Rightarrow> response outcome" where
  "client_DELETE_try b req =
     (case requireTenantContext b of
        Throws \<Rightarrow> Throws
      | Returns ctx \<Rightarrow>
          if \<not> hasPermission b (ctx_role ctx) USERS_MANAGE
            then Returns (addDeprecationHeaders_id (now b) (json (ErrorBody ''Unauthorized'') 401))
          else (case ctx_tenantId ctx of
                  None \<Rightarrow>
                    Returns (addDeprecationHeaders_id (now b)
                      (json (ErrorBody ''Tenant context missing'') 400))
                | Some tenantId \<Rightarrow>
                    if tenantId = []
                      then Returns (addDeprecationHeaders_id (now b)
                             (json (ErrorBody ''Tenant context missing'') 400))
                    else (case findFirst b (params_id req) tenantId of
                            Throws \<Rightarrow> Throws
                          | Returns None \<Rightarrow>
                              Returns (addDeprecationHeaders_id (now b)
                                (json (ErrorBody ''Client not found'') 404))
                          | Returns (Some c) \<Rightarrow>
                              (case delete b (params_id req) of
                                 Throws \<Rightarrow> Throws
                               | Returns _ \<Rightarrow>
                                   Returns (addDeprecationHeaders_id (now b)
                                     (json SuccessBody 200))))))"

definition client_DELETE :: "backend \<Rightarrow> request \<Rightarrow> response" where
  "client_DELETE b req =
     (case client_DELETE_try b req of
        Returns r \<Rightarrow> r
      | Throws \<Rightarrow>
          addDeprecationHeaders_id (now b) (json (ErrorBody ''Failed to delete client'') 500))"

text \<open>A response carries the four deprecation headers.\<close>

definition hasDeprecationHeaders :: "response \<Rightarrow> bool" where
  "hasDeprecationHeaders r \<longleftrightarrow>
     headers r ''Deprecation'' \<noteq> None \<and> headers r ''Sunset'' \<noteq> None
     \<and> headers r ''Link'' \<noteq> None \<and> headers r ''X-API-Warn'' \<noteq> None"

section \<open>The legacy route redirector\<close>

record redirectRule =
  sourcePath :: string
  destinationPath :: string
  queryParams :: "(string \<times> string) list"

text \<open>
  Modelled from the spec: the pages (or routing configuration) that answer
  \<open>/admin/permissions\<close>, \<open>/admin/roles\<close>, \<open>/admin/clients\<close> and \<open>/admin/team\<close> are not among
  the sources; only their end-to-end test \<open>e2e/tests/admin-unified-redirects.spec.ts\<close> is.
  The rule table is the one of the specification (sections 4.3 and 6), with the two rows
  it leaves open (roles, team) as that test expects them.
\<close>

definition redirectRules :: "redirectRule list" where
  "redirectRules =
     [\<lparr> sourcePath = ''/admin/permissions'', destinationPath = ''/admin/users'',
         queryParams = [(''tab'', ''rbac'')] \<rparr>,
      \<lparr> sourcePath = ''/admin/roles'', destinationPath = ''/admin/users'',
         queryParams = [(''tab'', ''rbac'')] \<rparr>,
      \<lparr> sourcePath = ''/admin/clients'', destinationPath = ''/admin/users'',
         queryParams = [(''tab'', ''dashboard''), (''role'', ''CLIENT'')] \<rparr>,
      \<lparr> sourcePath = ''/admin/team'', destinationPath = ''/admin/users'',
         queryParams = [(''tab'', ''dashboard''), (''role'', ''TEAM_MEMBER'')] \<rparr>]"

fun queryString :: "(string \<times> string) list \<Rightarrow> string" where
  "queryString [] = []"
| "queryString [(k, v)] = k @ ''='' @ v"
| "queryString ((k, v) # kvs) = k @ ''='' @ v @ ''&'' @ queryString kvs"

text \<open>
  Modelled from the spec: the answer to a GET request for a path, as section 4.3 words it:
  a redirect (some 3xx status, which the specification does not fix) to the destination
  with its query string when a rule has the path as its source; no rule, no redirect.
\<close>

datatype routeAnswer = Redirect3xx string | NoRedirect

definition legacyRedirect :: "string \<Rightarrow> routeAnswer" where
  "legacyRedirect p =
     (case find (\<lambda>rule. sourcePath rule = p) redirectRules of
        None \<Rightarrow> NoRedirect
      | Some rule \<Rightarrow>
          Redirect3xx (destinationPath rule @ ''?'' @ queryString (queryParams rule)))"

section \<open>Notions of the specification\<close>

text \<open>
  The role filter passes: every role is targeted, or the caller gave no role (an absent or
  empty one), or the role is one of the targeted ones.
\<close>

definition roleFilterPasses :: "featureFlagConfig \<Rightarrow> jsstring option \<Rightarrow> bool" where
  "roleFilterPasses cfg userRole \<longleftrightarrow>
     targetUsers cfg = Str (js ''all'') \<or> \<not> truthy userRole
     \<or> (case userRole of
           None \<Rightarrow> False
         | Some r \<Rightarrow> r \<in> set (case targetUsers cfg of Arr roles \<Rightarrow> roles | Str s \<Rightarrow> [s]))"

text \<open>
  The rollout gate rejects a user: the percentage is below 100 and the user's hash, modulo
  100, is at least the threshold \<open>(rolloutPercentage / 100) * 100\<close>.
\<close>

definition rolloutGateRejects :: "featureFlagConfig \<Rightarrow> jsstring \<Rightarrow> bool" where
  "rolloutGateRejects cfg userId \<longleftrightarrow>
     numLess (rolloutPercentage cfg) (Finite 100)
     \<and> numGreaterEq (Finite (of_int (jsrem (hashUserId userId) 100)))
          (numTimes (numDivide (rolloutPercentage cfg) 100) 100)"

text \<open>
  A string in which \<open>parseInt\<close> finds no number: after the leading white space and one
  optional sign, the next code unit is not a decimal digit (or the string has ended).
\<close>

definition noLeadingInteger :: "jsstring \<Rightarrow> bool" where
  "noLeadingInteger s \<longleftrightarrow>
     (case dropWhile isWhiteSpace s of
        [] \<Rightarrow> True
      | c # cs \<Rightarrow> if c = 43 \<or> c = 45 then (case cs of [] \<Rightarrow> True | d # _ \<Rightarrow> \<not> isDigit d)
                 else \<not> isDigit c)"

text \<open>
  What every memo cell of the hook satisfies: the cached value has
  \<open>enabled = globalEnabled && userEnabled\<close>, and it was computed for a user id that is
  truthy or has \<open>userEnabled\<close> false.
\<close>

definition memoSound :: "adminWorkBenchFeature memo \<Rightarrow> bool" where
  "memoSound memo \<longleftrightarrow>
     (case memo of
        None \<Rightarrow> True
      | Some ((i, ro), v) \<Rightarrow>
          enabled v = (globalEnabled v \<and> userEnabled v) \<and> (truthy i \<or> \<not> userEnabled v))"

section \<open>Example runtimes\<close>

text \<open>
  A server (only \<open>process.env\<close>) and a browser (only \<open>window.__ENV__\<close>) with the given
  variables; their \<open>toUpperCase\<close> is the one of ASCII letters.
\<close>

definition asciiUpperCase :: "jsstring \<Rightarrow> jsstring" where
  "asciiUpperCase s = map (\<lambda>c. if 97 \<le> unat c \<and> unat c \<le> 122 then c - 32 else c) s"

definition serverRuntime :: "(jsstring \<times> jsstring) list \<Rightarrow> runtime" where
  "serverRuntime vars =
     \<lparr> process = Some \<lparr> env = Some (map_of vars) \<rparr>, window = None,
       toUpperCase = asciiUpperCase \<rparr>"

definition browserRuntime :: "(jsstring \<times> jsstring) list \<Rightarrow> runtime" where
  "browserRuntime vars =
     \<lparr> process = None, window = Some \<lparr> ENV = Some (map_of vars) \<rparr>,
       toUpperCase = asciiUpperCase \<rparr>"

definition rtOff :: runtime where
  "rtOff = serverRuntime
     [(ADMIN_WORKBENCH_ENABLED, js ''TRUE''),
      (ADMIN_WORKBENCH_BETA_TESTERS, js ''u1'')]"

definition rtAdmins :: runtime where
  "rtAdmins = serverRuntime
     [(ADMIN_WORKBENCH_ENABLED, js ''true''),
      (ADMIN_WORKBENCH_TARGET_USERS, js ''admins'')]"

definition rtZero :: runtime where
  "rtZero = serverRuntime
     [(ADMIN_WORKBENCH_ENABLED, js ''true''),
      (ADMIN_WORKBENCH_ROLLOUT_PERCENTAGE, js ''0'')]"

definition vars50 :: "(jsstring \<times> jsstring) list" where
  "vars50 =
     [(ADMIN_WORKBENCH_ENABLED, js ''true''),
      (ADMIN_WORKBENCH_ROLLOUT_PERCENTAGE, js ''50'')]"

definition rt50percent :: runtime where
  "rt50percent = serverRuntime
     [(ADMIN_WORKBENCH_ENABLED, js ''true''),
      (ADMIN_WORKBENCH_ROLLOUT_PERCENTAGE, js ''50%'')]"

definition rtAbc :: runtime where
  "rtAbc = serverRuntime
     [(ADMIN_WORKBENCH_ENABLED, js ''true''),
      (ADMIN_WORKBENCH_ROLLOUT_PERCENTAGE, js ''abc'')]"

definition rtTargetBeta :: runtime where
  "rtTargetBeta = serverRuntime
     [(ADMIN_WORKBENCH_ENABLED, js ''true''),
      (ADMIN_WORKBENCH_TARGET_USERS, js ''beta''),
      (ADMIN_WORKBENCH_BETA_TESTERS, js ''u1'')]"

definition rtBeta50 :: runtime where
  "rtBeta50 = serverRuntime
     [(ADMIN_WORKBENCH_ENABLED, js ''true''),
      (ADMIN_WORKBENCH_ROLLOUT_PERCENTAGE, js ''50''),
      (ADMIN_WORKBENCH_BETA_TESTERS, js ''u1, c1'')]"

text \<open>The session of the administrator \<open>u1\<close>.\<close>

definition sessionAdmin :: session where
  "sessionAdmin =
     \<lparr> user = Some \<lparr> user_id = Some (js ''u1''), user_role = Some (js ''ADMIN'') \<rparr> \<rparr>"

text \<open>A backend whose database fails on every query, for an administrator of tenant \<open>t1\<close>.\<close>

definition backendDown :: backend where
  "backendDown =
     \<lparr> requireTenantContext =
         Returns \<lparr> ctx_role = Some (js ''ADMIN''), ctx_tenantId = Some (js ''t1'') \<rparr>,
       hasPermission = (\<lambda>role p. role = Some (js ''ADMIN'')),
       findMany = (\<lambda>tenantId. Throws),
       findFirst = (\<lambda>i tenantId. Throws),
       findUnique = (\<lambda>tenantId email. Throws),
       create = (\<lambda>name email tenantId. Throws),
       update = (\<lambda>i name email. Throws),
       delete = (\<lambda>i. Throws),
       now = 0 \<rparr>"

definition requestC1 :: request where
  "requestC1 = \<lparr> params_id = js ''c1'', body_name = None, body_email = None \<rparr>"

section \<open>The rollout hash\<close>

lemma jsrem_abs_range: "0 \<le> jsrem \<bar>h\<bar> 100 \<and> jsrem \<bar>h\<bar> 100 \<le> 99"
proof (cases "h = 0")
  case True
  then show ?thesis by (simp add: jsrem_def)
next
  case False
  then have "sgn \<bar>h\<bar> = 1" by simp
  then have "jsrem \<bar>h\<bar> 100 = \<bar>h\<bar> mod 100" by (simp add: jsrem_def)
  moreover have "0 \<le> \<bar>h\<bar> mod 100" "\<bar>h\<bar> mod 100 < 100" by simp_all
  ultimately show ?thesis by simp
qed

lemma hashUserId_range: "0 \<le> hashUserId userId \<and> hashUserId userId \<le> 99"
  unfolding hashUserId_def by (rule jsrem_abs_range)

section \<open>The number model\<close>

text \<open>Integers below \<open>2^53\<close> in absolute value are binary64 values: rounding keeps them.\<close>

lemma roundTiesToEven_of_int [simp]: "roundTiesToEven (of_int m) = m"
  by (simp add: roundTiesToEven_def)

lemma floorLog2_of_nat:
  assumes "0 < k" and "k < 2 ^ 53"
  shows "0 \<le> floorLog2 (of_nat k) \<and> floorLog2 (of_nat k) \<le> 52"
proof -
  have b: "2 ^ (floorlog 2 k - 1) \<le> k" "k < 2 ^ floorlog 2 k"
    using floorlog_bounds [of k 2] assms(1) by simp_all
  have pos: "0 < floorlog 2 k"
    using b(2) assms(1) by (cases "floorlog 2 k") simp_all
  have "(2::nat) ^ (floorlog 2 k - 1) < 2 ^ 53"
    using b(1) assms(2) by linarith
  then have "floorlog 2 k - 1 < 53"
    by (simp only: power_strict_increasing_iff [of "2::nat"] one_less_numeral_iff semiring_norm)
  moreover have "(1::rat) \<le> of_nat k"
    using assms(1) by (simp add: Suc_leI)
  ultimately show ?thesis
    using pos by (simp add: floorLog2_def)
qed

lemma toDouble_of_int:
  assumes "\<bar>n\<bar> < 2 ^ 53"
  shows "toDouble (of_int n) = Finite (of_int n)"
proof (cases "n = 0")
  case True
  then show ?thesis by (simp add: toDouble_def)
next
  case False
  define k where "k = nat \<bar>n\<bar>"
  have k: "0 < k" "k < 2 ^ 53" "\<bar>rat_of_int n\<bar> = of_nat k"
    using False assms by (simp_all add: k_def nat_less_iff)
  define e where "e = floorLog2 (of_nat k)"
  have e: "0 \<le> e" "e \<le> 52"
    using floorLog2_of_nat [OF k(1,2)] by (simp_all add: e_def)
  define j where "j = nat (52 - e)"
  have ulp: "(2::rat) powi (e - 52) = 1 / 2 ^ j"
    using e by (simp add: power_int_def j_def power_one_over nat_diff_distrib)
  have "rat_of_int n / (1 / 2 ^ j) = of_int (n * 2 ^ j)"
    by simp
  then have r: "of_int (roundTiesToEven (rat_of_int n / (1 / 2 ^ j))) * (1 / 2 ^ j) = rat_of_int n"
    by (simp only: roundTiesToEven_of_int) simp
  have "\<bar>rat_of_int n\<bar> < 2 ^ 53"
    using assms by (metis of_int_abs of_int_less_numeral_power_cancel_iff)
  also have "\<dots> < (2::rat) ^ 1024"
    by simp
  finally have small: "\<not> (2::rat) ^ 1024 \<le> \<bar>rat_of_int n\<bar>"
    by simp
  have E: "max (floorLog2 \<bar>rat_of_int n\<bar>) (- 1022) = e"
    using e by (simp add: k(3) e_def [symmetric])
  have nz: "rat_of_int n \<noteq> 0"
    using False by simp
  show ?thesis
    unfolding toDouble_def Let_def E ulp r
    using nz small by (simp only: if_False)
qed

lemma floorLog2_7_100: "floorLog2 (7 / 100) = - 4"
proof -
  have "\<lceil>(100::rat) / 7\<rceil> = 15"
    by (rule ceiling_unique) simp_all
  then show ?thesis
    by (simp add: floorLog2_def compute_floorlog)
qed

lemma toDouble_7_100: "toDouble (7 / 100) = Finite (5044031582654956 / 2 ^ 56)"
proof -
  have u: "(2::rat) powi (- 4 - 52) = 1 / 2 ^ 56"
    by (simp add: power_int_def power_one_over)
  have "\<lfloor>(7::rat) / 100 * 2 ^ 56\<rfloor> = 5044031582654955"
    by (rule floor_unique) simp_all
  then have rd: "roundTiesToEven (7 / 100 / (1 / 2 ^ 56)) = 5044031582654956"
    by (simp add: roundTiesToEven_def Let_def)
  have s: "\<not> (2::rat) ^ 1024 \<le> \<bar>rat_of_int 5044031582654956 * (1 / 2 ^ 56)\<bar>"
    by simp
  have m: "max (- 4) (- 1022) = (- 4 :: int)"
    by simp
  have z: "(7::rat) / 100 \<noteq> 0" "\<bar>7 / 100 :: rat\<bar> = 7 / 100"
    by simp_all
  show ?thesis
    unfolding toDouble_def Let_def z(2) floorLog2_7_100 m u rd
    using z(1) s by (simp only: if_False) simp
qed

lemma toDouble_7_100_times_100:
  "toDouble (5044031582654956 / 2 ^ 56 * 100) = Finite (7 + 1 / 2 ^ 50)"
proof -
  have x: "(5044031582654956::rat) / 2 ^ 56 * 100 = 126100789566373900 / 2 ^ 54"
    by simp
  have "\<lfloor>(126100789566373900::rat) / 2 ^ 54\<rfloor> = 7"
    by (rule floor_unique) simp_all
  then have fl: "floorLog2 (126100789566373900 / 2 ^ 54) = 2"
    by (simp add: floorLog2_def compute_floorlog)
  have u: "(2::rat) powi (2 - 52) = 1 / 2 ^ 50"
    by (simp add: power_int_def power_one_over)
  have "\<lfloor>(126100789566373900::rat) / 2 ^ 54 * 2 ^ 50\<rfloor> = 7881299347898368"
    by (rule floor_unique) simp_all
  then have rd: "roundTiesToEven (126100789566373900 / 2 ^ 54 / (1 / 2 ^ 50)) = 7881299347898369"
    by (simp add: roundTiesToEven_def Let_def)
  have s: "\<not> (2::rat) ^ 1024 \<le> \<bar>rat_of_int 7881299347898369 * (1 / 2 ^ 50)\<bar>"
    by simp
  have m: "max 2 (- 1022) = (2 :: int)"
    by simp
  have z: "(126100789566373900::rat) / 2 ^ 54 \<noteq> 0"
    "\<bar>126100789566373900 / 2 ^ 54 :: rat\<bar> = 126100789566373900 / 2 ^ 54"
    by simp_all
  have "toDouble (126100789566373900 / 2 ^ 54) = Finite (7 + 1 / 2 ^ 50)"
    unfolding toDouble_def Let_def z(2) fl m u rd
    using z(1) s by (simp only: if_False) simp
  then show ?thesis
    by (simp only: x)
qed

text \<open>
  The threshold is not always the percentage: for 7 it is the next binary64 value above 7,
  so that a user whose hash is 7 passes the gate of a 7 percent rollout.
\<close>

lemma percentageThreshold_7:
  "numTimes (numDivide (Finite 7) 100) 100 = Finite (7 + 1 / 2 ^ 50)"
  by (simp only: numDivide.simps numTimes.simps toDouble_7_100 toDouble_7_100_times_100)

section \<open>Evaluating the examples\<close>

lemma js_eq_Nil [simp]: "js s = [] \<longleftrightarrow> s = []"
  by (simp add: js_def)

lemma key_distinct:
  "distinct [ADMIN_WORKBENCH_ENABLED, ADMIN_WORKBENCH_ROLLOUT_PERCENTAGE,
     ADMIN_WORKBENCH_TARGET_USERS, ADMIN_WORKBENCH_BETA_TESTERS]"
  by (simp add: ADMIN_WORKBENCH_ENABLED_def ADMIN_WORKBENCH_ROLLOUT_PERCENTAGE_def
      ADMIN_WORKBENCH_TARGET_USERS_def ADMIN_WORKBENCH_BETA_TESTERS_def js_def)

lemma key_neq:
  "ADMIN_WORKBENCH_ENABLED \<noteq> ADMIN_WORKBENCH_ROLLOUT_PERCENTAGE"
  "ADMIN_WORKBENCH_ENABLED \<noteq> ADMIN_WORKBENCH_TARGET_USERS"
  "ADMIN_WORKBENCH_ENABLED \<noteq> ADMIN_WORKBENCH_BETA_TESTERS"
  "ADMIN_WORKBENCH_ROLLOUT_PERCENTAGE \<noteq> ADMIN_WORKBENCH_ENABLED"
  "ADMIN_WORKBENCH_ROLLOUT_PERCENTAGE \<noteq> ADMIN_WORKBENCH_TARGET_USERS"
  "ADMIN_WORKBENCH_ROLLOUT_PERCENTAGE \<noteq> ADMIN_WORKBENCH_BETA_TESTERS"
  "ADMIN_WORKBENCH_TARGET_USERS \<noteq> ADMIN_WORKBENCH_ENABLED"
  "ADMIN_WORKBENCH_TARGET_USERS \<noteq> ADMIN_WORKBENCH_ROLLOUT_PERCENTAGE"
  "ADMIN_WORKBENCH_TARGET_USERS \<noteq> ADMIN_WORKBENCH_BETA_TESTERS"
  "ADMIN_WORKBENCH_BETA_TESTERS \<noteq> ADMIN_WORKBENCH_ENABLED"
  "ADMIN_WORKBENCH_BETA_TESTERS \<noteq> ADMIN_WORKBENCH_ROLLOUT_PERCENTAGE"
  "ADMIN_WORKBENCH_BETA_TESTERS \<noteq> ADMIN_WORKBENCH_TARGET_USERS"
  using key_distinct by auto

lemma processEnv_serverRuntime: "processEnv (serverRuntime vars) key = map_of vars key"
  by (simp add: processEnv_def serverRuntime_def)

lemma window_serverRuntime: "window (serverRuntime vars) = None"
  by (simp add: serverRuntime_def)

lemma getEnvironmentVariable_serverRuntime:
  "getEnvironmentVariable (serverRuntime vars) key d =
     (case map_of vars key of None \<Rightarrow> d | Some v \<Rightarrow> if v = [] then d else v)"
  by (simp add: getEnvironmentVariable_def processEnv_serverRuntime truthy_def
        window_serverRuntime split: option.splits)

lemma isAdminWorkBenchEnabled_serverRuntime:
  "isAdminWorkBenchEnabled (serverRuntime vars) \<longleftrightarrow>
     map_of vars ADMIN_WORKBENCH_ENABLED = Some (js ''true'')"
  by (auto simp: isAdminWorkBenchEnabled_def processEnv_serverRuntime window_serverRuntime
        js_def split: option.splits)

lemma getEnvironmentVariable_browserRuntime:
  "getEnvironmentVariable (browserRuntime vars) key d =
     (case map_of vars key of None \<Rightarrow> d | Some v \<Rightarrow> v)"
  by (simp add: getEnvironmentVariable_def processEnv_def truthy_def browserRuntime_def
        windowEnv_def split: option.splits)

lemma isAdminWorkBenchEnabled_browserRuntime:
  "isAdminWorkBenchEnabled (browserRuntime vars) \<longleftrightarrow>
     map_of vars ADMIN_WORKBENCH_ENABLED = Some (js ''true'')"
  by (auto simp: isAdminWorkBenchEnabled_def processEnv_def browserRuntime_def windowEnv_def
        split: option.splits)

lemma toDouble_0: "toDouble 0 = Finite 0"
  by (simp add: toDouble_def)

lemma toDouble_half: "toDouble (1 / 2) = Finite (1 / 2)"
  by (simp add: toDouble_def floorLog2_def compute_floorlog roundTiesToEven_def power_int_def
        power_one_over Let_def)

lemma toDouble_50: "toDouble 50 = Finite 50"
  by (simp add: toDouble_def floorLog2_def compute_floorlog roundTiesToEven_def power_int_def
        power_one_over Let_def)

lemma toDouble_100: "toDouble 100 = Finite 100"
  by (simp add: toDouble_def floorLog2_def compute_floorlog roundTiesToEven_def power_int_def
        power_one_over Let_def)

lemma parseInt_0: "parseInt (js ''0'') = Finite 0"
  by (simp add: parseInt_def js_def isWhiteSpace_def isDigit_def digitsValue_def toDouble_0)

lemma parseInt_50: "parseInt (js ''50'') = Finite 50"
  by (simp add: parseInt_def js_def isWhiteSpace_def isDigit_def digitsValue_def toDouble_50)

lemma parseInt_100: "parseInt (js ''100'') = Finite 100"
  by (simp add: parseInt_def js_def isWhiteSpace_def isDigit_def digitsValue_def toDouble_100)

lemma parseInt_50_percent: "parseInt (js ''50%'') = Finite 50"
  by (simp add: parseInt_def js_def isWhiteSpace_def isDigit_def digitsValue_def toDouble_50)

lemma noLeadingInteger_abc: "noLeadingInteger (js ''abc'')"
  by (simp add: noLeadingInteger_def js_def isWhiteSpace_def isDigit_def)

lemma hashUserId_u1: "hashUserId (js ''u1'') = 76"
  by (simp add: hashUserId_def js_def toInt32_def shiftLeft_def bitAnd_def jsrem_def)

lemma hashUserId_c1: "hashUserId (js ''c1'') = 18"
  by (simp add: hashUserId_def js_def toInt32_def shiftLeft_def bitAnd_def jsrem_def)

lemma jsrem_hash: "jsrem (hashUserId userId) 100 = hashUserId userId"
  using hashUserId_range [of userId] by (auto simp: jsrem_def sgn_if)

lemma gate_50_c1: "\<not> rolloutGateRejects (cfg\<lparr>rolloutPercentage := Finite 50\<rparr>) (js ''c1'')"
  by (simp add: rolloutGateRejects_def jsrem_def hashUserId_c1 toDouble_half toDouble_50)

lemma literal_neq:
  "js ''beta'' \<noteq> js ''all''" "js ''ADMIN'' \<noteq> js ''all''" "js ''ADMIN'' \<noteq> js ''beta''"
  "js ''admins'' \<noteq> js ''all''" "js ''admins'' \<noteq> js ''beta''"
  "js ''CLIENT'' \<noteq> js ''ADMIN''" "js ''TRUE'' \<noteq> js ''true''"
  by (simp_all add: js_def)

lemma rtBeta50_enabled: "isAdminWorkBenchEnabled rtBeta50"
  by (simp add: rtBeta50_def isAdminWorkBenchEnabled_serverRuntime)

lemma rtBeta50_config:
  "getAdminWorkBenchFeatureFlagConfig rtBeta50 =
     \<lparr> enabled_config = True, rolloutPercentage = Finite 50, targetUsers = Str (js ''all''),
       betaTesters = [js ''u1'', js ''c1''],
       description = js ''New AdminWorkBench UI for user management dashboard'' \<rparr>"
proof -
  have "getBetaTesterList rtBeta50 = [js ''u1'', js ''c1'']"
    by (simp add: rtBeta50_def getBetaTesterList_def getEnvironmentVariable_serverRuntime
          key_neq Let_def)
       (simp add: js_def comma_def trim_def isWhiteSpace_def)
  then show ?thesis
    using rtBeta50_enabled
    by (simp add: getAdminWorkBenchFeatureFlagConfig_def Let_def)
       (simp add: rtBeta50_def getEnvironmentVariable_serverRuntime key_neq parseInt_50
          parseTargetUsers_def)
qed

lemma rtZero_enabled: "isAdminWorkBenchEnabled rtZero"
  by (simp add: rtZero_def isAdminWorkBenchEnabled_serverRuntime)

lemma rtZero_config:
  "getAdminWorkBenchFeatureFlagConfig rtZero =
     \<lparr> enabled_config = True, rolloutPercentage = Finite 0, targetUsers = Str (js ''all''),
       betaTesters = [],
       description = js ''New AdminWorkBench UI for user management dashboard'' \<rparr>"
  using rtZero_enabled
  by (simp add: getAdminWorkBenchFeatureFlagConfig_def Let_def)
     (simp add: rtZero_def getBetaTesterList_def getEnvironmentVariable_serverRuntime key_neq
        parseInt_0 parseTargetUsers_def)

lemma rtAdmins_enabled: "isAdminWorkBenchEnabled rtAdmins"
  by (simp add: rtAdmins_def isAdminWorkBenchEnabled_serverRuntime)

lemma rtAdmins_config:
  "getAdminWorkBenchFeatureFlagConfig rtAdmins =
     \<lparr> enabled_config = True, rolloutPercentage = Finite 100, targetUsers = Arr [js ''ADMIN''],
       betaTesters = [],
       description = js ''New AdminWorkBench UI for user management dashboard'' \<rparr>"
  using rtAdmins_enabled
  by (simp add: getAdminWorkBenchFeatureFlagConfig_def Let_def)
     (simp add: rtAdmins_def getBetaTesterList_def getEnvironmentVariable_serverRuntime key_neq
        parseInt_100 parseTargetUsers_def literal_neq)

lemma rtOff_disabled: "\<not> isAdminWorkBenchEnabled rtOff"
  by (simp add: rtOff_def isAdminWorkBenchEnabled_serverRuntime literal_neq)

lemma rt50percent_enabled: "isAdminWorkBenchEnabled rt50percent"
  by (simp add: rt50percent_def isAdminWorkBenchEnabled_serverRuntime)

lemma rt50percent_config:
  "getAdminWorkBenchFeatureFlagConfig rt50percent =
     \<lparr> enabled_config = True, rolloutPercentage = Finite 50, targetUsers = Str (js ''all''),
       betaTesters = [],
       description = js ''New AdminWorkBench UI for user management dashboard'' \<rparr>"
  using rt50percent_enabled
  by (simp add: getAdminWorkBenchFeatureFlagConfig_def Let_def)
     (simp add: rt50percent_def getBetaTesterList_def getEnvironmentVariable_serverRuntime
        key_neq parseInt_50_percent parseTargetUsers_def)

lemma rtAbc_percentage:
  "getEnvironmentVariable rtAbc ADMIN_WORKBENCH_ROLLOUT_PERCENTAGE (js ''100'') = js ''abc''"
  by (simp add: rtAbc_def getEnvironmentVariable_serverRuntime key_neq)

lemma rt50percent_percentage:
  "getEnvironmentVariable rt50percent ADMIN_WORKBENCH_ROLLOUT_PERCENTAGE (js ''100'') = js ''50%''"
  by (simp add: rt50percent_def getEnvironmentVariable_serverRuntime key_neq)

lemma rtTargetBeta_target:
  "getEnvironmentVariable rtTargetBeta ADMIN_WORKBENCH_TARGET_USERS (js ''all'') = js ''beta''"
  by (simp add: rtTargetBeta_def getEnvironmentVariable_serverRuntime key_neq)

lemma rtTargetBeta_betaTesters:
  "betaTesters (getAdminWorkBenchFeatureFlagConfig rtTargetBeta) = [js ''u1'']"
  by (simp add: getAdminWorkBenchFeatureFlagConfig_def Let_def rtTargetBeta_def
        getBetaTesterList_def getEnvironmentVariable_serverRuntime key_neq)
     (simp add: js_def comma_def trim_def isWhiteSpace_def)

lemma vars50_config:
  "getAdminWorkBenchFeatureFlagConfig (serverRuntime vars50) =
     \<lparr> enabled_config = True, rolloutPercentage = Finite 50, targetUsers = Str (js ''all''),
       betaTesters = [],
       description = js ''New AdminWorkBench UI for user management dashboard'' \<rparr>"
  "getAdminWorkBenchFeatureFlagConfig (browserRuntime vars50) =
     \<lparr> enabled_config = True, rolloutPercentage = Finite 50, targetUsers = Str (js ''all''),
       betaTesters = [],
       description = js ''New AdminWorkBench UI for user management dashboard'' \<rparr>"
  by (simp_all add: getAdminWorkBenchFeatureFlagConfig_def Let_def vars50_def
        isAdminWorkBenchEnabled_serverRuntime isAdminWorkBenchEnabled_browserRuntime
        getBetaTesterList_def getEnvironmentVariable_serverRuntime
        getEnvironmentVariable_browserRuntime key_neq parseInt_50 parseTargetUsers_def)

section \<open>The decision of \<open>isAdminWorkBenchEnabledForUser\<close>\<close>

lemma isAdminWorkBenchEnabledForUser_iff:
  "isAdminWorkBenchEnabledForUser rt userId userRole \<longleftrightarrow>
     isAdminWorkBenchEnabled rt
     \<and> enabledForUserByConfig (getAdminWorkBenchFeatureFlagConfig rt) userId userRole"
  by (simp add: isAdminWorkBenchEnabledForUser_def Let_def)

lemma enabledForUserByConfig_iff:
  "enabledForUserByConfig cfg userId userRole \<longleftrightarrow>
     roleFilterPasses cfg userRole \<and> \<not> rolloutGateRejects cfg userId
     \<and> (betaTesters cfg = [] \<or> userId \<in> set (betaTesters cfg))"
  by (auto simp: enabledForUserByConfig_def roleFilterPasses_def rolloutGateRejects_def Let_def
        truthy_def split: option.splits)

lemma enabled_config_eq:
  "enabled_config (getAdminWorkBenchFeatureFlagConfig rt) = isAdminWorkBenchEnabled rt"
  by (simp add: getAdminWorkBenchFeatureFlagConfig_def Let_def)

lemma isAdminWorkBenchEnabled_iff:
  "isAdminWorkBenchEnabled rt \<longleftrightarrow>
     getEnvironmentVariable rt ADMIN_WORKBENCH_ENABLED [] = js ''true''"
  by (auto simp: isAdminWorkBenchEnabled_def getEnvironmentVariable_def truthy_def js_def
        split: option.splits)

lemma parseInt_NaN_iff: "parseInt s = NaN \<longleftrightarrow> noLeadingInteger s"
proof -
  have fin: "toDouble x \<noteq> NaN" for x
    by (simp add: toDouble_def Let_def)
  show ?thesis
  proof (cases "dropWhile isWhiteSpace s")
    case Nil
    then show ?thesis
      by (simp add: parseInt_def noLeadingInteger_def del: dropWhile_eq_Nil_conv)
  next
    case (Cons c cs)
    then show ?thesis
      by (cases cs) (simp_all add: parseInt_def noLeadingInteger_def Let_def fin)
  qed
qed

section \<open>Claims about the rollout decision\<close>

text \<open>
  Claim C1, as the code has it. With the feature enabled globally, a role that passes the
  role filter and a beta-tester list that is not empty, the user gets the feature exactly
  when the user is on the list and the rollout gate does not reject the user. The list
  does not override the gate: the gate runs first and returns \<open>false\<close> on its own.
\<close>

theorem beta_list_decides_after_rollout_gate:
  assumes "isAdminWorkBenchEnabled rt"
    and "roleFilterPasses (getAdminWorkBenchFeatureFlagConfig rt) userRole"
    and "betaTesters (getAdminWorkBenchFeatureFlagConfig rt) \<noteq> []"
  shows "isAdminWorkBenchEnabledForUser rt userId userRole \<longleftrightarrow>
           userId \<in> set (betaTesters (getAdminWorkBenchFeatureFlagConfig rt))
           \<and> \<not> rolloutGateRejects (getAdminWorkBenchFeatureFlagConfig rt) userId"
  using assms by (auto simp: isAdminWorkBenchEnabledForUser_iff enabledForUserByConfig_iff)

theorem beta_list_decides_after_rollout_gate_witness:
  "isAdminWorkBenchEnabled rtBeta50
   \<and> roleFilterPasses (getAdminWorkBenchFeatureFlagConfig rtBeta50) (Some (js ''ADMIN''))
   \<and> betaTesters (getAdminWorkBenchFeatureFlagConfig rtBeta50) \<noteq> []
   \<and> isAdminWorkBenchEnabledForUser rtBeta50 (js ''c1'') (Some (js ''ADMIN''))"
proof -
  have r: "roleFilterPasses (getAdminWorkBenchFeatureFlagConfig rtBeta50) (Some (js ''ADMIN''))"
    by (simp add: roleFilterPasses_def rtBeta50_config)
  have b: "betaTesters (getAdminWorkBenchFeatureFlagConfig rtBeta50) \<noteq> []"
    by (simp add: rtBeta50_config)
  have m: "js ''c1'' \<in> set (betaTesters (getAdminWorkBenchFeatureFlagConfig rtBeta50))"
    by (simp add: rtBeta50_config)
  have g: "\<not> rolloutGateRejects (getAdminWorkBenchFeatureFlagConfig rtBeta50) (js ''c1'')"
    using gate_50_c1 [of "getAdminWorkBenchFeatureFlagConfig rtBeta50"]
    by (simp add: rtBeta50_config)
  from beta_list_decides_after_rollout_gate [OF rtBeta50_enabled r b, of "js ''c1''"] m g
  show ?thesis
    using rtBeta50_enabled r b by simp
qed

text \<open>
  Claim C1 as stated fails: with a rollout percentage of 50, the beta tester \<open>u1\<close>, whose
  hash is 76, is on the list and is refused.
\<close>

theorem beta_member_rejected_by_rollout_gate:
  "isAdminWorkBenchEnabled rtBeta50
   \<and> roleFilterPasses (getAdminWorkBenchFeatureFlagConfig rtBeta50) (Some (js ''ADMIN''))
   \<and> betaTesters (getAdminWorkBenchFeatureFlagConfig rtBeta50) \<noteq> []
   \<and> js ''u1'' \<in> set (betaTesters (getAdminWorkBenchFeatureFlagConfig rtBeta50))
   \<and> hashUserId (js ''u1'') = 76
   \<and> rolloutPercentage (getAdminWorkBenchFeatureFlagConfig rtBeta50) = Finite 50
   \<and> \<not> isAdminWorkBenchEnabledForUser rtBeta50 (js ''u1'') (Some (js ''ADMIN''))"
proof -
  have "\<not> enabledForUserByConfig (getAdminWorkBenchFeatureFlagConfig rtBeta50) (js ''u1'')
          (Some (js ''ADMIN''))"
    by (simp add: enabledForUserByConfig_def rtBeta50_config hashUserId_u1 jsrem_def
          toDouble_half toDouble_50)
  then show ?thesis
    using rtBeta50_enabled
    by (simp add: isAdminWorkBenchEnabledForUser_iff hashUserId_u1)
       (simp add: rtBeta50_config roleFilterPasses_def)
qed

text \<open>
  Claim C3. With the feature enabled globally and no beta-tester list: a rollout percentage
  of 0 refuses every user, whatever the role; a rollout percentage of 100 admits every
  user whose role passes the role filter.
\<close>

theorem rollout_percentage_0_and_100:
  assumes "isAdminWorkBenchEnabled rt"
    and "betaTesters (getAdminWorkBenchFeatureFlagConfig rt) = []"
  shows "(rolloutPercentage (getAdminWorkBenchFeatureFlagConfig rt) = Finite 0
            \<longrightarrow> \<not> isAdminWorkBenchEnabledForUser rt userId userRole)
       \<and> (rolloutPercentage (getAdminWorkBenchFeatureFlagConfig rt) = Finite 100
            \<longrightarrow> roleFilterPasses (getAdminWorkBenchFeatureFlagConfig rt) userRole
            \<longrightarrow> isAdminWorkBenchEnabledForUser rt userId userRole)"
proof (intro conjI impI)
  assume z: "rolloutPercentage (getAdminWorkBenchFeatureFlagConfig rt) = Finite 0"
  have "0 \<le> hashUserId userId"
    using hashUserId_range by blast
  then have "rolloutGateRejects (getAdminWorkBenchFeatureFlagConfig rt) userId"
    by (simp add: rolloutGateRejects_def z toDouble_0 jsrem_hash)
  then show "\<not> isAdminWorkBenchEnabledForUser rt userId userRole"
    by (simp add: isAdminWorkBenchEnabledForUser_iff enabledForUserByConfig_iff)
next
  assume h: "rolloutPercentage (getAdminWorkBenchFeatureFlagConfig rt) = Finite 100"
    and p: "roleFilterPasses (getAdminWorkBenchFeatureFlagConfig rt) userRole"
  have "\<not> rolloutGateRejects (getAdminWorkBenchFeatureFlagConfig rt) userId"
    by (simp add: rolloutGateRejects_def h)
  with assms p show "isAdminWorkBenchEnabledForUser rt userId userRole"
    by (simp add: isAdminWorkBenchEnabledForUser_iff enabledForUserByConfig_iff)
qed

theorem rollout_percentage_0_and_100_witness:
  "isAdminWorkBenchEnabled rtZero
   \<and> betaTesters (getAdminWorkBenchFeatureFlagConfig rtZero) = []
   \<and> rolloutPercentage (getAdminWorkBenchFeatureFlagConfig rtZero) = Finite 0
   \<and> \<not> isAdminWorkBenchEnabledForUser rtZero (js ''c1'') (Some (js ''ADMIN''))
   \<and> isAdminWorkBenchEnabled rtAdmins
   \<and> betaTesters (getAdminWorkBenchFeatureFlagConfig rtAdmins) = []
   \<and> rolloutPercentage (getAdminWorkBenchFeatureFlagConfig rtAdmins) = Finite 100
   \<and> roleFilterPasses (getAdminWorkBenchFeatureFlagConfig rtAdmins) (Some (js ''ADMIN''))
   \<and> isAdminWorkBenchEnabledForUser rtAdmins (js ''u1'') (Some (js ''ADMIN''))"
proof -
  have z: "betaTesters (getAdminWorkBenchFeatureFlagConfig rtZero) = []"
    "rolloutPercentage (getAdminWorkBenchFeatureFlagConfig rtZero) = Finite 0"
    by (simp_all add: rtZero_config)
  have a: "betaTesters (getAdminWorkBenchFeatureFlagConfig rtAdmins) = []"
    "rolloutPercentage (getAdminWorkBenchFeatureFlagConfig rtAdmins) = Finite 100"
    "roleFilterPasses (getAdminWorkBenchFeatureFlagConfig rtAdmins) (Some (js ''ADMIN''))"
    by (simp_all add: rtAdmins_config roleFilterPasses_def)
  from rollout_percentage_0_and_100 [OF rtZero_enabled z(1), of "js ''c1''" "Some (js ''ADMIN'')"]
    rollout_percentage_0_and_100 [OF rtAdmins_enabled a(1), of "js ''u1''" "Some (js ''ADMIN'')"]
  show ?thesis
    using rtZero_enabled rtAdmins_enabled z a by simp
qed

text \<open>
  Claim C4. The global flag is on exactly when the value that the environment gives for
  \<open>NEXT_PUBLIC_ADMIN_WORKBENCH_ENABLED\<close> is the string \<open>true\<close>; when it is off, no user gets
  the feature, whatever the role, the percentage, the targeted users and the beta list.
\<close>

theorem disabled_globally_disabled_for_user:
  "(isAdminWorkBenchEnabled rt \<longleftrightarrow>
      getEnvironmentVariable rt ADMIN_WORKBENCH_ENABLED [] = js ''true'')
   \<and> (\<not> isAdminWorkBenchEnabled rt \<longrightarrow> \<not> isAdminWorkBenchEnabledForUser rt userId userRole)"
  using isAdminWorkBenchEnabled_iff [of rt]
  by (simp add: isAdminWorkBenchEnabledForUser_def)

theorem disabled_globally_disabled_for_user_witness:
  "getEnvironmentVariable rtOff ADMIN_WORKBENCH_ENABLED [] = js ''TRUE''
   \<and> \<not> isAdminWorkBenchEnabled rtOff
   \<and> betaTesters (getAdminWorkBenchFeatureFlagConfig rtOff) = [js ''u1'']
   \<and> \<not> isAdminWorkBenchEnabledForUser rtOff (js ''u1'') (Some (js ''ADMIN''))"
proof -
  have v: "getEnvironmentVariable rtOff ADMIN_WORKBENCH_ENABLED [] = js ''TRUE''"
    by (simp add: rtOff_def getEnvironmentVariable_serverRuntime)
  have b: "betaTesters (getAdminWorkBenchFeatureFlagConfig rtOff) = [js ''u1'']"
    by (simp add: getAdminWorkBenchFeatureFlagConfig_def Let_def rtOff_def
          getBetaTesterList_def getEnvironmentVariable_serverRuntime key_neq)
       (simp add: js_def comma_def trim_def isWhiteSpace_def)
  from disabled_globally_disabled_for_user [of rtOff "js ''u1''" "Some (js ''ADMIN'')"]
  show ?thesis
    using v b rtOff_disabled by simp
qed

text \<open>
  Claim C5. \<open>hashUserId\<close> is a function of the user id alone, so two evaluations agree; its
  value lies between 0 and 99. The decision for a user depends on the runtime only through
  the configuration: two runtimes that give the same configuration give the same answer
  for the same user id and role.
\<close>

theorem hashUserId_range_and_stable_decision:
  "0 \<le> hashUserId userId \<and> hashUserId userId \<le> 99
   \<and> (getAdminWorkBenchFeatureFlagConfig rt1 = getAdminWorkBenchFeatureFlagConfig rt2
        \<longrightarrow> isAdminWorkBenchEnabledForUser rt1 userId userRole
            = isAdminWorkBenchEnabledForUser rt2 userId userRole)"
proof (intro conjI impI)
  assume eq: "getAdminWorkBenchFeatureFlagConfig rt1 = getAdminWorkBenchFeatureFlagConfig rt2"
  then have "isAdminWorkBenchEnabled rt1 = isAdminWorkBenchEnabled rt2"
    using enabled_config_eq [of rt1] enabled_config_eq [of rt2] by simp
  with eq show "isAdminWorkBenchEnabledForUser rt1 userId userRole
      = isAdminWorkBenchEnabledForUser rt2 userId userRole"
    by (simp add: isAdminWorkBenchEnabledForUser_iff)
qed (use hashUserId_range in blast)+

theorem hashUserId_range_and_stable_decision_witness:
  "hashUserId (js ''u1'') = 76
   \<and> getAdminWorkBenchFeatureFlagConfig (serverRuntime vars50)
       = getAdminWorkBenchFeatureFlagConfig (browserRuntime vars50)
   \<and> isAdminWorkBenchEnabledForUser (serverRuntime vars50) (js ''u1'') None
       = isAdminWorkBenchEnabledForUser (browserRuntime vars50) (js ''u1'') None"
proof -
  have eq: "getAdminWorkBenchFeatureFlagConfig (serverRuntime vars50)
      = getAdminWorkBenchFeatureFlagConfig (browserRuntime vars50)"
    by (simp add: vars50_config)
  from hashUserId_range_and_stable_decision
    [of "js ''u1''" "serverRuntime vars50" "browserRuntime vars50" None]
  show ?thesis
    using eq hashUserId_u1 by simp
qed

text \<open>
  Claim C6. With the feature enabled globally, a rollout percentage of 100 and the targeted
  users \<open>["ADMIN"]\<close>, a caller whose role is \<open>CLIENT\<close> does not get the feature.
\<close>

theorem admin_target_refuses_client:
  assumes "isAdminWorkBenchEnabled rt"
    and "rolloutPercentage (getAdminWorkBenchFeatureFlagConfig rt) = Finite 100"
    and "targetUsers (getAdminWorkBenchFeatureFlagConfig rt) = Arr [js ''ADMIN'']"
  shows "\<not> isAdminWorkBenchEnabledForUser rt userId (Some (js ''CLIENT''))"
  using assms
  by (simp add: isAdminWorkBenchEnabledForUser_def enabledForUserByConfig_def truthy_def
        literal_neq)

theorem admin_target_refuses_client_witness:
  "isAdminWorkBenchEnabled rtAdmins
   \<and> rolloutPercentage (getAdminWorkBenchFeatureFlagConfig rtAdmins) = Finite 100
   \<and> targetUsers (getAdminWorkBenchFeatureFlagConfig rtAdmins) = Arr [js ''ADMIN'']
   \<and> \<not> isAdminWorkBenchEnabledForUser rtAdmins (js ''u1'') (Some (js ''CLIENT''))"
proof -
  have c: "rolloutPercentage (getAdminWorkBenchFeatureFlagConfig rtAdmins) = Finite 100"
    "targetUsers (getAdminWorkBenchFeatureFlagConfig rtAdmins) = Arr [js ''ADMIN'']"
    by (simp_all add: rtAdmins_config)
  from admin_target_refuses_client [OF rtAdmins_enabled c, of "js ''u1''"]
  show ?thesis
    using rtAdmins_enabled c by simp
qed

text \<open>
  Claim C8, as the code has it. When \<open>parseInt\<close> finds no number in the value of the
  rollout-percentage variable (such as \<open>abc\<close>), the configured percentage is \<open>NaN\<close>, the
  comparison \<open>NaN < 100\<close> is false, and every user is treated as with a percentage of 100.
\<close>

theorem unparsable_percentage_behaves_as_100:
  assumes "noLeadingInteger
             (getEnvironmentVariable rt ADMIN_WORKBENCH_ROLLOUT_PERCENTAGE (js ''100''))"
  shows "rolloutPercentage (getAdminWorkBenchFeatureFlagConfig rt) = NaN
       \<and> \<not> numLess (rolloutPercentage (getAdminWorkBenchFeatureFlagConfig rt)) (Finite 100)
       \<and> isAdminWorkBenchEnabledForUser rt userId userRole
           = (isAdminWorkBenchEnabled rt
              \<and> enabledForUserByConfig
                   ((getAdminWorkBenchFeatureFlagConfig rt)\<lparr>rolloutPercentage := Finite 100\<rparr>)
                   userId userRole)"
proof -
  have n: "rolloutPercentage (getAdminWorkBenchFeatureFlagConfig rt) = NaN"
    using assms by (simp add: getAdminWorkBenchFeatureFlagConfig_def Let_def parseInt_NaN_iff)
  have "enabledForUserByConfig (getAdminWorkBenchFeatureFlagConfig rt) userId userRole
      = enabledForUserByConfig
          ((getAdminWorkBenchFeatureFlagConfig rt)\<lparr>rolloutPercentage := Finite 100\<rparr>)
          userId userRole"
    by (simp add: enabledForUserByConfig_def n)
  then show ?thesis
    by (simp add: n isAdminWorkBenchEnabledForUser_iff)
qed

theorem unparsable_percentage_behaves_as_100_witness:
  "noLeadingInteger (getEnvironmentVariable rtAbc ADMIN_WORKBENCH_ROLLOUT_PERCENTAGE (js ''100''))
   \<and> rolloutPercentage (getAdminWorkBenchFeatureFlagConfig rtAbc) = NaN
   \<and> isAdminWorkBenchEnabledForUser rtAbc (js ''u1'') None
       = (isAdminWorkBenchEnabled rtAbc
          \<and> enabledForUserByConfig
               ((getAdminWorkBenchFeatureFlagConfig rtAbc)\<lparr>rolloutPercentage := Finite 100\<rparr>)
               (js ''u1'') None)"
proof -
  have h: "noLeadingInteger
      (getEnvironmentVariable rtAbc ADMIN_WORKBENCH_ROLLOUT_PERCENTAGE (js ''100''))"
    by (simp add: rtAbc_percentage noLeadingInteger_abc)
  from unparsable_percentage_behaves_as_100 [OF h, of "js ''u1''" None]
  show ?thesis
    using h by simp
qed

text \<open>
  Claim C8 as stated fails for a value that is not a number but starts with digits: for
  \<open>50%\<close> the configured percentage is 50, not \<open>NaN\<close>, and the user \<open>u1\<close> (hash 76) is
  refused although a percentage of 100 would admit that user.
\<close>

theorem percentage_with_suffix_is_parsed:
  "getEnvironmentVariable rt50percent ADMIN_WORKBENCH_ROLLOUT_PERCENTAGE (js ''100'') = js ''50%''
   \<and> rolloutPercentage (getAdminWorkBenchFeatureFlagConfig rt50percent) = Finite 50
   \<and> isAdminWorkBenchEnabled rt50percent
   \<and> \<not> isAdminWorkBenchEnabledForUser rt50percent (js ''u1'') None
   \<and> enabledForUserByConfig
        ((getAdminWorkBenchFeatureFlagConfig rt50percent)\<lparr>rolloutPercentage := Finite 100\<rparr>)
        (js ''u1'') None"
proof -
  have a: "\<not> enabledForUserByConfig (getAdminWorkBenchFeatureFlagConfig rt50percent)
      (js ''u1'') None"
    by (simp add: enabledForUserByConfig_def rt50percent_config truthy_def hashUserId_u1
          jsrem_def toDouble_half toDouble_50)
  have b: "enabledForUserByConfig
      ((getAdminWorkBenchFeatureFlagConfig rt50percent)\<lparr>rolloutPercentage := Finite 100\<rparr>)
      (js ''u1'') None"
    by (simp add: enabledForUserByConfig_def rt50percent_config truthy_def)
  show ?thesis
    using a b rt50percent_enabled rt50percent_percentage
    by (simp add: isAdminWorkBenchEnabledForUser_iff)
       (simp add: rt50percent_config)
qed

text \<open>
  Claim C9. When the value of the target-users variable is \<open>beta\<close>, \<open>parseTargetUsers\<close>
  returns the string \<open>beta\<close> as it is, and the role filter reads it as the role list
  \<open>["beta"]\<close>: a caller that gives a role (a string that is not empty) other than \<open>beta\<close> is
  refused, beta testers included, and a caller with the role \<open>beta\<close> passes the filter.
\<close>

theorem target_beta_is_read_as_a_role:
  assumes "getEnvironmentVariable rt ADMIN_WORKBENCH_TARGET_USERS (js ''all'') = js ''beta''"
    and "r \<noteq> []" and "r \<noteq> js ''beta''"
  shows "parseTargetUsers rt (js ''beta'') = Str (js ''beta'')
       \<and> targetUsers (getAdminWorkBenchFeatureFlagConfig rt) = Str (js ''beta'')
       \<and> \<not> isAdminWorkBenchEnabledForUser rt userId (Some r)
       \<and> isAdminWorkBenchEnabledForUser rt userId (Some (js ''beta''))
           = (isAdminWorkBenchEnabled rt
              \<and> \<not> rolloutGateRejects (getAdminWorkBenchFeatureFlagConfig rt) userId
              \<and> (betaTesters (getAdminWorkBenchFeatureFlagConfig rt) = []
                 \<or> userId \<in> set (betaTesters (getAdminWorkBenchFeatureFlagConfig rt))))"
proof -
  have p: "parseTargetUsers rt (js ''beta'') = Str (js ''beta'')"
    by (simp add: parseTargetUsers_def)
  have t: "targetUsers (getAdminWorkBenchFeatureFlagConfig rt) = Str (js ''beta'')"
    using assms(1) by (simp add: getAdminWorkBenchFeatureFlagConfig_def Let_def p)
  have d: "\<not> isAdminWorkBenchEnabledForUser rt userId (Some r)"
    using assms(2,3)
    by (simp add: isAdminWorkBenchEnabledForUser_iff enabledForUserByConfig_def t literal_neq
          truthy_def)
  have b: "roleFilterPasses (getAdminWorkBenchFeatureFlagConfig rt) (Some (js ''beta''))"
    by (simp add: roleFilterPasses_def t)
  show ?thesis
    using p t d b by (simp add: isAdminWorkBenchEnabledForUser_iff enabledForUserByConfig_iff)
qed

theorem target_beta_is_read_as_a_role_witness:
  "getEnvironmentVariable rtTargetBeta ADMIN_WORKBENCH_TARGET_USERS (js ''all'') = js ''beta''
   \<and> js ''ADMIN'' \<noteq> [] \<and> js ''ADMIN'' \<noteq> js ''beta''
   \<and> js ''u1'' \<in> set (betaTesters (getAdminWorkBenchFeatureFlagConfig rtTargetBeta))
   \<and> \<not> isAdminWorkBenchEnabledForUser rtTargetBeta (js ''u1'') (Some (js ''ADMIN''))"
proof -
  have n: "js ''ADMIN'' \<noteq> []" "js ''ADMIN'' \<noteq> js ''beta''"
    by (simp_all add: literal_neq)
  from target_beta_is_read_as_a_role [OF rtTargetBeta_target n, of "js ''u1''"]
  show ?thesis
    using rtTargetBeta_target n by (simp add: rtTargetBeta_betaTesters)
qed

section \<open>The hook\<close>

lemma computeFeature_enabled:
  "enabled (computeFeature rt data)
     = (globalEnabled (computeFeature rt data) \<and> userEnabled (computeFeature rt data))"
  by (simp add: computeFeature_def Let_def)

lemma computeFeature_no_user:
  "\<not> truthy (sessionUserId data) \<Longrightarrow> \<not> userEnabled (computeFeature rt data)"
  by (simp add: computeFeature_def Let_def truthy_def split: option.splits)

lemma useAdminWorkBenchFeature_sound:
  assumes "memoSound memo"
  shows "memoSound (snd (useAdminWorkBenchFeature rt data memo))"
    and "enabled (fst (useAdminWorkBenchFeature rt data memo))
           = (globalEnabled (fst (useAdminWorkBenchFeature rt data memo))
              \<and> userEnabled (fst (useAdminWorkBenchFeature rt data memo)))"
    and "truthy (sessionUserId data)
           \<or> \<not> userEnabled (fst (useAdminWorkBenchFeature rt data memo))"
  using assms computeFeature_enabled [of rt data] computeFeature_no_user [of data rt]
  by (auto simp: useAdminWorkBenchFeature_def useMemo_def memoSound_def Let_def
        split: option.splits if_splits)

lemma rendered_memoSound: "rendered memo \<Longrightarrow> memoSound memo"
proof (induction rule: rendered.induct)
  case mount
  show ?case by (simp add: memoSound_def)
next
  case (rerender memo rt data)
  from rerender.IH show ?case by (rule useAdminWorkBenchFeature_sound(1))
qed

text \<open>
  Claim C10. On every render, from any memo cell that earlier renders can have left, under
  any runtime and session, the value that \<open>useAdminWorkBenchFeature\<close> returns has
  \<open>enabled = globalEnabled && userEnabled\<close>; and when the session has no user id (none, or
  an empty one) \<open>userEnabled\<close> and \<open>enabled\<close> are false.
\<close>

theorem useAdminWorkBenchFeature_enabled:
  assumes "rendered memo"
  shows "enabled (fst (useAdminWorkBenchFeature rt data memo))
           = (globalEnabled (fst (useAdminWorkBenchFeature rt data memo))
              \<and> userEnabled (fst (useAdminWorkBenchFeature rt data memo)))
       \<and> (\<not> truthy (sessionUserId data)
            \<longrightarrow> \<not> userEnabled (fst (useAdminWorkBenchFeature rt data memo))
               \<and> \<not> enabled (fst (useAdminWorkBenchFeature rt data memo)))"
proof -
  have s: "memoSound memo"
    using assms by (rule rendered_memoSound)
  show ?thesis
    using useAdminWorkBenchFeature_sound(2) [OF s, where rt = rt and data = data]
      useAdminWorkBenchFeature_sound(3) [OF s, where rt = rt and data = data]
    by auto
qed

theorem useAdminWorkBenchFeature_enabled_witness:
  "rendered (snd (useAdminWorkBenchFeature rtAdmins (Some sessionAdmin) None))
   \<and> \<not> truthy (sessionUserId None)
   \<and> \<not> userEnabled (fst (useAdminWorkBenchFeature rtAdmins None
         (snd (useAdminWorkBenchFeature rtAdmins (Some sessionAdmin) None))))
   \<and> \<not> enabled (fst (useAdminWorkBenchFeature rtAdmins None
         (snd (useAdminWorkBenchFeature rtAdmins (Some sessionAdmin) None))))"
proof -
  have r: "rendered (snd (useAdminWorkBenchFeature rtAdmins (Some sessionAdmin) None))"
    by (rule rendered.rerender [OF rendered.mount])
  have n: "\<not> truthy (sessionUserId None)"
    by (simp add: sessionUserId_def truthy_def)
  from useAdminWorkBenchFeature_enabled [OF r, of rtAdmins None]
  show ?thesis
    using r n by simp
qed

section \<open>The deprecated client endpoints\<close>

lemma hasDeprecationHeaders_add [simp]:
  "hasDeprecationHeaders (addDeprecationHeaders t r)"
  "hasDeprecationHeaders (addDeprecationHeaders_id t r)"
  by (simp_all add: hasDeprecationHeaders_def addDeprecationHeaders_def
        addDeprecationHeaders_id_def setHeader_def)

lemma json_no_deprecation_headers [simp]: "\<not> hasDeprecationHeaders (json b st)"
  by (simp add: hasDeprecationHeaders_def json_def)

lemma status_add [simp]:
  "status (addDeprecationHeaders t r) = status r"
  "status (addDeprecationHeaders_id t r) = status r"
  by (simp_all add: addDeprecationHeaders_def addDeprecationHeaders_id_def setHeader_def)

lemma status_json [simp]: "status (json b st) = st"
  by (simp add: json_def)

text \<open>The handlers that decorate every response, the one of their \<open>catch\<close> included.\<close>

lemma clients_POST_deprecated: "hasDeprecationHeaders (clients_POST b req)"
  by (simp add: clients_POST_def clients_POST_try_def
        split: outcome.splits option.splits prod.splits)

lemma client_PATCH_deprecated: "hasDeprecationHeaders (client_PATCH b req)"
  by (simp add: client_PATCH_def client_PATCH_try_def
        split: outcome.splits option.splits)

lemma client_DELETE_deprecated: "hasDeprecationHeaders (client_DELETE b req)"
  by (simp add: client_DELETE_def client_DELETE_try_def
        split: outcome.splits option.splits)

text \<open>The two \<open>GET\<close> handlers decorate a response exactly when it is not the one of their \<open>catch\<close>.\<close>

lemma clients_GET_deprecated_iff:
  "hasDeprecationHeaders (clients_GET b) \<longleftrightarrow> status (clients_GET b) \<noteq> 500"
  by (simp add: clients_GET_def clients_GET_try_def split: outcome.splits option.splits)

lemma client_GET_deprecated_iff:
  "hasDeprecationHeaders (client_GET b req) \<longleftrightarrow> status (client_GET b req) \<noteq> 500"
  by (simp add: client_GET_def client_GET_try_def split: outcome.splits option.splits)

text \<open>
  Claim C2 fails on the code. When the database throws during the list query, \<open>GET\<close> of
  \<open>clients/route.ts\<close> answers 500 from its \<open>catch\<close> without any of the four deprecation
  headers, and so does \<open>GET\<close> of \<open>clients/[id]/route.ts\<close>; \<open>POST\<close>, \<open>PATCH\<close> and \<open>DELETE\<close>
  decorate the answer of their \<open>catch\<close>.
\<close>

theorem GET_error_without_deprecation_headers:
  "status (clients_GET backendDown) = 500
   \<and> body (clients_GET backendDown) = ErrorBody ''Failed to list clients''
   \<and> headers (clients_GET backendDown) ''Deprecation'' = None
   \<and> headers (clients_GET backendDown) ''Sunset'' = None
   \<and> headers (clients_GET backendDown) ''Link'' = None
   \<and> headers (clients_GET backendDown) ''X-API-Warn'' = None
   \<and> status (client_GET backendDown requestC1) = 500
   \<and> \<not> hasDeprecationHeaders (client_GET backendDown requestC1)
   \<and> status (client_DELETE backendDown requestC1) = 500
   \<and> hasDeprecationHeaders (client_DELETE backendDown requestC1)"
proof -
  have l: "clients_GET backendDown = json (ErrorBody ''Failed to list clients'') 500"
    by (simp add: clients_GET_def clients_GET_try_def backendDown_def)
  have g: "client_GET backendDown requestC1 = json (ErrorBody ''Failed to fetch client'') 500"
    by (simp add: client_GET_def client_GET_try_def backendDown_def)
  have d: "client_DELETE backendDown requestC1
      = addDeprecationHeaders_id 0 (json (ErrorBody ''Failed to delete client'') 500)"
    by (simp add: client_DELETE_def client_DELETE_try_def backendDown_def)
  have 1: "status (clients_GET backendDown) = 500
      \<and> body (clients_GET backendDown) = ErrorBody ''Failed to list clients''
      \<and> headers (clients_GET backendDown) ''Deprecation'' = None
      \<and> headers (clients_GET backendDown) ''Sunset'' = None
      \<and> headers (clients_GET backendDown) ''Link'' = None
      \<and> headers (clients_GET backendDown) ''X-API-Warn'' = None"
    unfolding l by (simp add: json_def)
  have 2: "status (client_GET backendDown requestC1) = 500
      \<and> \<not> hasDeprecationHeaders (client_GET backendDown requestC1)"
    unfolding g by simp
  have 3: "status (client_DELETE backendDown requestC1) = 500
      \<and> hasDeprecationHeaders (client_DELETE backendDown requestC1)"
    unfolding d by simp
  from 1 2 3 show ?thesis
    by blast
qed

section \<open>The legacy routes\<close>

text \<open>
  Claim C7. A GET request for a legacy admin path is answered with a redirect to
  \<open>/admin/users\<close>: \<open>/admin/permissions\<close> and \<open>/admin/roles\<close> with \<open>tab=rbac\<close>,
  \<open>/admin/clients\<close> with \<open>tab=dashboard\<close> and \<open>role=CLIENT\<close>, \<open>/admin/team\<close> with
  \<open>tab=dashboard\<close> and \<open>role=TEAM_MEMBER\<close>.
\<close>

theorem legacy_paths_redirect_to_users:
  "legacyRedirect ''/admin/permissions'' = Redirect3xx ''/admin/users?tab=rbac''
   \<and> legacyRedirect ''/admin/roles'' = Redirect3xx ''/admin/users?tab=rbac''
   \<and> legacyRedirect ''/admin/clients'' = Redirect3xx ''/admin/users?tab=dashboard&role=CLIENT''
   \<and> legacyRedirect ''/admin/team'' = Redirect3xx ''/admin/users?tab=dashboard&role=TEAM_MEMBER''"
  by (simp add: legacyRedirect_def redirectRules_def)

end
